theory Spec2Isabelle
  imports Complex_Main "HOL-Library.AList" "HOL-Library.Sublist"
begin

section \<open>Python values used by the tracker\<close>

text \<open>
  The tracker (\<^verbatim>\<open>main.py\<close>) works on strings, floats, optional floats and dictionaries.
  Strings are \<^typ>\<open>string\<close> (ASCII text: \<^verbatim>\<open>upper\<close>, \<^verbatim>\<open>lower\<close> and \<^verbatim>\<open>strip\<close> are
  modelled on ASCII letters and ASCII whitespace). The float type is a type parameter
  \<open>'p\<close>: the definitions use only \<open>0\<close>, \<open>+\<close>, \<open>*\<close> and \<open>\<le>\<close> of it, as the source
  does, and concrete inputs are evaluated at \<^typ>\<open>real\<close>. An optional float
  (\<^verbatim>\<open>None\<close> for an absent price) is \<open>'p option\<close>.

  A Python \<^verbatim>\<open>dict\<close> keeps its keys in insertion order, and that order is observable
  (\<^verbatim>\<open>prices.items()\<close> drives the alert loop), so a dictionary is an association list
  with one entry per key: \<^verbatim>\<open>d[k] = v\<close> replaces the value of a key already present, at
  its place, and appends a new key at the end; \<^verbatim>\<open>d.get(k)\<close> is \<^const>\<open>map_of\<close>.
\<close>

definition upper_char :: "char \<Rightarrow> char" where
  "upper_char c =
     (let n = (of_char c :: nat) in if 97 \<le> n \<and> n \<le> 122 then char_of (n - 32) else c)"

definition lower_char :: "char \<Rightarrow> char" where
  "lower_char c =
     (let n = (of_char c :: nat) in if 65 \<le> n \<and> n \<le> 90 then char_of (n + 32) else c)"

definition upper :: "string \<Rightarrow> string" where
  "upper s = map upper_char s"

definition lower :: "string \<Rightarrow> string" where
  "lower s = map lower_char s"

definition is_space :: "char \<Rightarrow> bool" where
  "is_space c = (let n = (of_char c :: nat) in (9 \<le> n \<and> n \<le> 13) \<or> (28 \<le> n \<and> n \<le> 32))"

definition strip :: "string \<Rightarrow> string" where
  "strip s = rev (dropWhile is_space (rev (dropWhile is_space s)))"

text \<open>\<^verbatim>\<open>sep.join(xs)\<close>.\<close>

fun join :: "string \<Rightarrow> string list \<Rightarrow> string" where
  "join sep [] = []"
| "join sep [x] = x"
| "join sep (x # y # ys) = x @ sep @ join sep (y # ys)"

text \<open>\<^verbatim>\<open>t.split(":", 1)\<close> on a string that holds a colon: the text before the first colon
  and the text after it.\<close>

definition split_colon :: "string \<Rightarrow> string \<times> string" where
  "split_colon t =
     (takeWhile (\<lambda>c. c \<noteq> CHR '':'') t, tl (dropWhile (\<lambda>c. c \<noteq> CHR '':'') t))"

type_synonym ('k, 'v) dict = "('k \<times> 'v) list"

definition dict_set :: "('k, 'v) dict \<Rightarrow> 'k \<Rightarrow> 'v \<Rightarrow> ('k, 'v) dict" where
  "dict_set d k v = AList.update k v d"

text \<open>A truthiness test \<^verbatim>\<open>if s:\<close> on an optional string: \<^verbatim>\<open>None\<close> and the empty string
  are false.\<close>

fun truthy :: "string option \<Rightarrow> bool" where
  "truthy None = False"
| "truthy (Some s) = (s \<noteq> [])"

text \<open>\<^verbatim>\<open>texts or []\<close> on an optional list (argparse leaves an option that was never given
  at \<^verbatim>\<open>None\<close>).\<close>

fun or_empty :: "'a list option \<Rightarrow> 'a list" where
  "or_empty None = []"
| "or_empty (Some xs) = xs"

section \<open>Command-line specifications: thresholds and holdings\<close>

text \<open>
  \<^verbatim>\<open>parse_thresholds\<close> and \<^verbatim>\<open>parse_holdings\<close> (main.py, lines 172 to 194). Each is a
  loop over the entries that fills a dictionary \<^verbatim>\<open>out\<close>; the loop is a recursion with
  \<^verbatim>\<open>out\<close> as accumulator. The builtin \<^verbatim>\<open>float\<close> is the parameter \<open>pyfloat\<close>: it returns
  \<^const>\<open>None\<close> where Python raises \<^verbatim>\<open>ValueError\<close>, which the bare \<^verbatim>\<open>except\<close> swallows.
\<close>

fun parse_thresholds_loop ::
  "(string \<Rightarrow> 'p option) \<Rightarrow> string list \<Rightarrow> (string, 'p) dict \<Rightarrow> (string, 'p) dict" where
  "parse_thresholds_loop pyfloat [] out = out"
| "parse_thresholds_loop pyfloat (t # ts) out =
     (if CHR '':'' \<notin> set t then parse_thresholds_loop pyfloat ts out
      else
        (let (sym, val) = split_colon t in
         case pyfloat (strip val) of
           None \<Rightarrow> parse_thresholds_loop pyfloat ts out
         | Some x \<Rightarrow> parse_thresholds_loop pyfloat ts (dict_set out (upper (strip sym)) x)))"

definition parse_thresholds ::
  "(string \<Rightarrow> 'p option) \<Rightarrow> string list option \<Rightarrow> (string, 'p) dict" where
  "parse_thresholds pyfloat texts = parse_thresholds_loop pyfloat (or_empty texts) []"

fun parse_holdings_loop ::
  "(string \<Rightarrow> 'p option) \<Rightarrow> string list \<Rightarrow> (string, 'p) dict \<Rightarrow> (string, 'p) dict" where
  "parse_holdings_loop pyfloat [] out = out"
| "parse_holdings_loop pyfloat (t # ts) out =
     (if CHR '':'' \<notin> set t then parse_holdings_loop pyfloat ts out
      else
        (let (sym, val) = split_colon t in
         case pyfloat (strip val) of
           None \<Rightarrow> parse_holdings_loop pyfloat ts out
         | Some x \<Rightarrow> parse_holdings_loop pyfloat ts (dict_set out (upper (strip sym)) x)))"

definition parse_holdings ::
  "(string \<Rightarrow> 'p option) \<Rightarrow> string list option \<Rightarrow> (string, 'p) dict" where
  "parse_holdings pyfloat texts = parse_holdings_loop pyfloat (or_empty texts) []"

text \<open>
  The reading both parsers are meant to implement, written from the description and not
  from either loop: an entry with a colon and a numeric value gives one pair (the trimmed,
  uppercased text before the first colon, and the value of the trimmed text after it); any
  other entry gives nothing; the pairs are stored in order, a later one replacing an
  earlier one for the same symbol.
\<close>

definition spec_entry :: "(string \<Rightarrow> 'p option) \<Rightarrow> string \<Rightarrow> (string \<times> 'p) option" where
  "spec_entry pyfloat t =
     (if CHR '':'' \<in> set t
      then map_option (Pair (upper (strip (fst (split_colon t)))))
             (pyfloat (strip (snd (split_colon t))))
      else None)"

definition spec_parse ::
  "(string \<Rightarrow> 'p option) \<Rightarrow> string list option \<Rightarrow> (string, 'p) dict" where
  "spec_parse pyfloat texts =
     foldl (\<lambda>out (k, v). dict_set out k v) [] (List.map_filter (spec_entry pyfloat) (or_empty texts))"

section \<open>Symbol resolver\<close>

definition COINGECKO_IDS :: "(string, string) dict" where
  "COINGECKO_IDS =
     [(''BTC'', ''bitcoin''), (''ETH'', ''ethereum''), (''BNB'', ''binancecoin''),
      (''ADA'', ''cardano''), (''SOL'', ''solana''), (''XRP'', ''ripple''),
      (''DOT'', ''polkadot''), (''DOGE'', ''dogecoin'')]"

definition COINGECKO_SIMPLE_PRICE :: string where
  "COINGECKO_SIMPLE_PRICE = ''https://api.coingecko.com/api/v3/simple/price''"

definition to_id :: "string \<Rightarrow> string" where
  "to_id symbol =
     (let symbol = upper symbol in
      case map_of COINGECKO_IDS symbol of None \<Rightarrow> lower symbol | Some i \<Rightarrow> i)"

section \<open>The outside world: exceptions, files, events\<close>

text \<open>
  What the program does to the outside world is recorded as a list of events, in program
  order; what the outside world answers is an argument of the function that asks. An
  exception is a value: a function that can raise returns an \<open>exc option\<close> beside its
  result (\<open>Some e\<close>: it raised \<open>e\<close>), or a sum with the exception on the left.

  The log file is a list of rows, each a list of cells, as \<^verbatim>\<open>csv.writer\<close> receives them:
  it writes a string as it is, a float as a number, and \<^verbatim>\<open>None\<close> as an empty field.
  The file system maps a path to the rows of the file there (\<^const>\<open>None\<close>: no such file).
  A write that fails is a failure of \<^verbatim>\<open>open\<close>: it raises before anything is written.
\<close>

datatype exc = RequestException | OSError | TypeError

datatype 'p csv_cell = CText string | CNum 'p | CEmpty

type_synonym 'p csv_row = "'p csv_cell list"

type_synonym 'p files = "string \<Rightarrow> 'p csv_row list option"

text \<open>An alert message \<^verbatim>\<open>f"ALERT: {sym} price {price} <= threshold {thr}"\<close> is kept as
  its three interpolated values; a price shown in the tick line
  (\<^verbatim>\<open>prices.get(s, 'N/A')\<close>) is a number, \<^verbatim>\<open>None\<close> or \<^verbatim>\<open>N/A\<close>.\<close>

datatype 'p alert = Alert (alert_sym: string) (alert_price: 'p) (alert_thr: 'p)

datatype 'p shown = ShownNum 'p | ShownNone | ShownNA

datatype 'p event =
    HttpGet string string string
  | AppendRow string "'p csv_row"
  | HttpPost string string "'p alert"
  | PrintFetchFailed exc
  | PrintTick string "(string \<times> 'p shown) list"
  | PrintAlert "'p alert"
  | PrintTelegramFailed exc
  | PrintPortfolio 'p string
  | Sleep int

section \<open>Core tracker\<close>

record crypto_tracker =
  symbols :: "string list"
  ids :: "string list"
  vs_currency :: string
  csv_path :: "string option"

definition header :: "crypto_tracker \<Rightarrow> 'p csv_row" where
  "header tr = CText ''timestamp'' # map (\<lambda>s. CText (s @ ''_'' @ vs_currency tr)) (symbols tr)"

text \<open>\<^verbatim>\<open>_ensure_csv\<close>: the header is written only when no file exists at the path. \<open>io\<close>
  is the outcome of opening the file for writing.\<close>

definition ensure_csv :: "crypto_tracker \<Rightarrow> exc option \<Rightarrow> 'p files \<Rightarrow> 'p files \<times> exc option" where
  "ensure_csv tr io fs =
     (case csv_path tr of
        None \<Rightarrow> (fs, Some TypeError)
      | Some path \<Rightarrow>
          if fs path \<noteq> None then (fs, None)
          else (case io of
                  Some e \<Rightarrow> (fs, Some e)
                | None \<Rightarrow> (fs(path \<mapsto> [header tr]), None)))"

text \<open>\<^verbatim>\<open>CryptoTracker.__init__\<close>. When the third component is \<open>Some e\<close> the constructor
  raised \<open>e\<close> and no tracker came back.\<close>

definition CryptoTracker ::
  "string list \<Rightarrow> string \<Rightarrow> string option \<Rightarrow> exc option \<Rightarrow> 'p files
     \<Rightarrow> crypto_tracker \<times> 'p files \<times> exc option" where
  "CryptoTracker syms vs path io fs =
     (let tr = \<lparr>symbols = map upper syms, ids = map to_id (map upper syms),
                vs_currency = vs, csv_path = path\<rparr>
      in if truthy path then (case ensure_csv tr io fs of (fs', r) \<Rightarrow> (tr, fs', r))
         else (tr, fs, None))"

text \<open>The provider's answer, shaped \<^verbatim>\<open>{identifier: {currency: number}}\<close>; a JSON
  \<^verbatim>\<open>null\<close> is \<^const>\<open>None\<close>.\<close>

type_synonym 'p json = "(string, (string, 'p option) dict) dict"

type_synonym 'p prices = "(string, 'p option) dict"

fun fetch_loop ::
  "'p json \<Rightarrow> string \<Rightarrow> (string \<times> string) list \<Rightarrow> 'p prices \<Rightarrow> 'p prices" where
  "fetch_loop data vs [] out = out"
| "fetch_loop data vs ((s, idx) # rest) out =
     (let price = (case map_of data idx of
                     None \<Rightarrow> None
                   | Some quotes \<Rightarrow> (case map_of quotes vs of None \<Rightarrow> None | Some v \<Rightarrow> v))
      in fetch_loop data vs rest (dict_set out s price))"

text \<open>\<^verbatim>\<open>fetch_prices\<close>. \<open>resp\<close> is what \<^verbatim>\<open>requests.get\<close>, \<^verbatim>\<open>raise_for_status\<close> and
  \<^verbatim>\<open>resp.json()\<close> give for the request: an exception or the decoded data. The events
  returned are the requests issued.\<close>

definition fetch_prices ::
  "crypto_tracker \<Rightarrow> exc + 'p json \<Rightarrow> 'p event list \<times> (exc + 'p prices)" where
  "fetch_prices tr resp =
     (let ids_param = join '','' (ids tr);
          req = HttpGet COINGECKO_SIMPLE_PRICE ids_param (vs_currency tr)
      in case resp of
           Inl e \<Rightarrow> ([req], Inl e)
         | Inr data \<Rightarrow>
             ([req], Inr (fetch_loop data (vs_currency tr) (zip (symbols tr) (ids tr)) [])))"

text \<open>\<^verbatim>\<open>prices.get(s)\<close>: \<^verbatim>\<open>None\<close> for a missing key and for a key whose price is absent.\<close>

definition get_price :: "'p prices \<Rightarrow> string \<Rightarrow> 'p option" where
  "get_price prices s = (case map_of prices s of None \<Rightarrow> None | Some v \<Rightarrow> v)"

definition cell_of :: "'p option \<Rightarrow> 'p csv_cell" where
  "cell_of v = (case v of None \<Rightarrow> CEmpty | Some p \<Rightarrow> CNum p)"

definition log_row :: "crypto_tracker \<Rightarrow> 'p prices \<Rightarrow> string \<Rightarrow> 'p csv_row" where
  "log_row tr prices ts = CText ts # map (\<lambda>s. cell_of (get_price prices s)) (symbols tr)"

text \<open>\<^verbatim>\<open>CryptoTracker.log\<close> (named \<open>log_csv\<close> here: \<open>log\<close> is the logarithm). \<open>ts\<close> is
  what \<^verbatim>\<open>now_iso()\<close> returns, \<open>io\<close> the outcome of opening the file for appending.
  Opening for appending creates a missing file.\<close>

definition log_csv ::
  "crypto_tracker \<Rightarrow> 'p prices \<Rightarrow> string \<Rightarrow> exc option \<Rightarrow> 'p files
     \<Rightarrow> 'p files \<times> 'p event list \<times> exc option" where
  "log_csv tr prices ts io fs =
     (if \<not> truthy (csv_path tr) then (fs, [], None)
      else case csv_path tr of
             None \<Rightarrow> (fs, [], None)
           | Some path \<Rightarrow>
               (let row = log_row tr prices ts in
                case io of
                  Some e \<Rightarrow> (fs, [AppendRow path row], Some e)
                | None \<Rightarrow>
                    (fs(path \<mapsto> (case fs path of None \<Rightarrow> [] | Some rows \<Rightarrow> rows) @ [row]),
                     [AppendRow path row], None)))"

section \<open>Alerts and notifications\<close>

record 'p alert_manager =
  thresholds :: "(string, 'p) dict"
  telegram_token :: "string option"
  telegram_chat_id :: "string option"

definition AlertManager ::
  "(string, 'p) dict option \<Rightarrow> string option \<Rightarrow> string option \<Rightarrow> 'p alert_manager" where
  "AlertManager thr token chat =
     \<lparr>thresholds = foldl (\<lambda>d (k, v). dict_set d (upper k) v) [] (or_empty thr),
      telegram_token = token, telegram_chat_id = chat\<rparr>"

text \<open>\<^verbatim>\<open>AlertManager.check\<close>: the loop over \<^verbatim>\<open>prices.items()\<close>, with \<^verbatim>\<open>messages\<close> as
  accumulator.\<close>

fun check_loop ::
  "(string, 'p::ord) dict \<Rightarrow> 'p prices \<Rightarrow> 'p alert list \<Rightarrow> 'p alert list" where
  "check_loop thrs [] messages = messages"
| "check_loop thrs ((s, price) # rest) messages =
     (case price of
        None \<Rightarrow> check_loop thrs rest messages
      | Some p \<Rightarrow>
          (case map_of thrs s of
             None \<Rightarrow> check_loop thrs rest messages
           | Some thr \<Rightarrow>
               if p \<le> thr then check_loop thrs rest (messages @ [Alert s p thr])
               else check_loop thrs rest messages))"

definition check :: "('p::ord) alert_manager \<Rightarrow> 'p prices \<Rightarrow> 'p alert list" where
  "check am prices = check_loop (thresholds am) prices []"

text \<open>\<^verbatim>\<open>AlertManager.send_telegram\<close>. \<open>post i\<close> is the outcome of the \<open>i\<close>-th
  \<^verbatim>\<open>requests.post\<close> of the batch: \<^const>\<open>None\<close> when it returns, \<open>Some e\<close> when it raises
  \<open>e\<close>. The events returned are the posts made and the failures printed.\<close>

definition telegram_url :: "string \<Rightarrow> string" where
  "telegram_url token = ''https://api.telegram.org/bot'' @ token @ ''/sendMessage''"

fun send_loop ::
  "string \<Rightarrow> string \<Rightarrow> (nat \<Rightarrow> exc option) \<Rightarrow> nat \<Rightarrow> 'p alert list \<Rightarrow> 'p event list" where
  "send_loop token chat post i [] = []"
| "send_loop token chat post i (msg # rest) =
     (let url = telegram_url token in
      case post i of
        None \<Rightarrow> HttpPost url chat msg # send_loop token chat post (Suc i) rest
      | Some e \<Rightarrow>
          HttpPost url chat msg # PrintTelegramFailed e # send_loop token chat post (Suc i) rest)"

definition send_telegram ::
  "'p alert_manager \<Rightarrow> 'p alert list \<Rightarrow> (nat \<Rightarrow> exc option) \<Rightarrow> 'p event list" where
  "send_telegram am messages post =
     (if \<not> (truthy (telegram_token am) \<and> truthy (telegram_chat_id am)) then []
      else case (telegram_token am, telegram_chat_id am) of
             (Some token, Some chat) \<Rightarrow> send_loop token chat post 0 messages
           | _ \<Rightarrow> [])"

section \<open>Portfolio\<close>



section \<open>The poll loop\<close>




text \<open>\<^verbatim>\<open>{s: None for s in tracker.symbols}\<close>.\<close>

definition all_absent :: "string list \<Rightarrow> 'p prices" where
  "all_absent syms = foldl (\<lambda>d s. dict_set d s None) [] syms"

text \<open>Lines 218 to 222: the fetch and its handler.\<close>

definition fetch_or_absent ::
  "crypto_tracker \<Rightarrow> exc + 'p json \<Rightarrow> 'p event list \<times> 'p prices" where
  "fetch_or_absent tr resp =
     (case fetch_prices tr resp of
        (evs, Inr prices) \<Rightarrow> (evs, prices)
      | (evs, Inl e) \<Rightarrow> (evs @ [PrintFetchFailed e], all_absent (symbols tr)))"

definition shown :: "'p prices \<Rightarrow> string \<Rightarrow> 'p shown" where
  "shown prices s =
     (case map_of prices s of
        None \<Rightarrow> ShownNA
      | Some None \<Rightarrow> ShownNone
      | Some (Some p) \<Rightarrow> ShownNum p)"



section \<open>Descriptions used in the statements\<close>

text \<open>The alert that one entry of the price dictionary calls for, if any.\<close>

definition alert_for :: "(string, 'p::ord) dict \<Rightarrow> string \<times> 'p option \<Rightarrow> 'p alert option" where
  "alert_for thrs entry =
     (case snd entry of
        None \<Rightarrow> None
      | Some p \<Rightarrow>
          (case map_of thrs (fst entry) of
             None \<Rightarrow> None
           | Some thr \<Rightarrow> if p \<le> thr then Some (Alert (fst entry) p thr) else None))"

text \<open>The events that are delivery attempts.\<close>

fun is_post :: "'p event \<Rightarrow> bool" where
  "is_post (HttpPost url chat msg) = True"
| "is_post ev = False"

text \<open>Successive calls of \<^verbatim>\<open>log\<close> on one tracker, each with its observation, its clock
  reading and the outcome of opening the file; after a call that raised, the next call is
  one of a later run.\<close>

fun log_all ::
  "crypto_tracker \<Rightarrow> ('p prices \<times> string \<times> exc option) list \<Rightarrow> 'p files \<Rightarrow> 'p files" where
  "log_all tr [] fs = fs"
| "log_all tr ((prices, ts, io) # rest) fs = log_all tr rest (fst (log_csv tr prices ts io fs))"

text \<open>The scenario of the specification: BTC and ETH tracked in USD, logged to
  \<^verbatim>\<open>prices.csv\<close>, whose header is already written.\<close>

definition scenario_tracker :: crypto_tracker where
  "scenario_tracker =
     \<lparr>symbols = [''BTC'', ''ETH''], ids = [''bitcoin'', ''ethereum''],
      vs_currency = ''usd'', csv_path = Some ''prices.csv''\<rparr>"

definition scenario_files :: "real files" where
  "scenario_files = Map.empty(''prices.csv'' \<mapsto> [header scenario_tracker])"






section \<open>The parsers agree\<close>

lemma parse_thresholds_loop_spec:
  "parse_thresholds_loop pyfloat ts out =
     foldl (\<lambda>out (k, v). dict_set out k v) out (List.map_filter (spec_entry pyfloat) ts)"
proof (induction ts arbitrary: out)
  case Nil
  show ?case by simp
next
  case (Cons t ts)
  show ?case
  proof (cases "CHR '':'' \<in> set t")
    case False
    then show ?thesis
      by (simp add: Cons.IH spec_entry_def)
  next
    case True
    then show ?thesis
      by (cases "pyfloat (strip (snd (split_colon t)))")
        (simp_all add: Cons.IH spec_entry_def split_beta)
  qed
qed

lemma parse_holdings_loop_spec:
  "parse_holdings_loop pyfloat ts out =
     foldl (\<lambda>out (k, v). dict_set out k v) out (List.map_filter (spec_entry pyfloat) ts)"
proof (induction ts arbitrary: out)
  case Nil
  show ?case by simp
next
  case (Cons t ts)
  show ?case
  proof (cases "CHR '':'' \<in> set t")
    case False
    then show ?thesis
      by (simp add: Cons.IH spec_entry_def)
  next
    case True
    then show ?thesis
      by (cases "pyfloat (strip (snd (split_colon t)))")
        (simp_all add: Cons.IH spec_entry_def split_beta)
  qed
qed

text \<open>
  C10. For every list of input strings (and for the absent list), the threshold parser
  and the holdings parser return the same dictionary, entries in the same order, and both
  compute the described reading: split on the first colon, trim and uppercase the symbol,
  parse the value as a float, skip entries with no colon or with a value that is no
  number.
\<close>

theorem parsers_agree:
  "parse_thresholds pyfloat texts = parse_holdings pyfloat texts \<and>
   parse_thresholds pyfloat texts = spec_parse pyfloat texts"
  by (simp add: parse_thresholds_def parse_holdings_def spec_parse_def
      parse_thresholds_loop_spec parse_holdings_loop_spec)

section \<open>Alerts, their order, and the portfolio value\<close>

lemma check_loop_append:
  "check_loop thrs prices messages = messages @ check_loop thrs prices []"
proof (induction prices arbitrary: messages)
  case Nil
  show ?case by simp
next
  case (Cons kv prices)
  obtain s price where kv: "kv = (s, price)" by (cases kv)
  have step: "\<And>m. check_loop thrs prices (messages @ [m]) = messages @ check_loop thrs prices [m]"
    using Cons.IH [of "messages @ [m]" for m] Cons.IH [of "[m]" for m] by simp
  show ?case
    unfolding kv using Cons.IH [of messages] step
    by (simp split: option.splits)
qed

lemma check_loop_absent_key:
  "s \<notin> fst ` set prices \<Longrightarrow> filter (\<lambda>m. alert_sym m = s) (check_loop thrs prices []) = []"
proof (induction prices)
  case Nil
  show ?case by simp
next
  case (Cons kv prices)
  obtain k price where kv: "kv = (k, price)" by (cases kv)
  from Cons.prems kv have ks: "k \<noteq> s" and rest: "s \<notin> fst ` set prices" by auto
  have tail: "filter (\<lambda>m. alert_sym m = s) (check_loop thrs prices []) = []"
    using Cons.IH rest by simp
  show ?case
    unfolding kv using ks tail check_loop_append [of thrs prices "[Alert k p t]" for p t]
    by (simp split: option.splits)
qed

lemma check_loop_for_symbol:
  "distinct (map fst prices) \<Longrightarrow>
   filter (\<lambda>m. alert_sym m = s) (check_loop thrs prices []) =
     (case map_of prices s of
        None \<Rightarrow> []
      | Some None \<Rightarrow> []
      | Some (Some p) \<Rightarrow>
          (case map_of thrs s of
             None \<Rightarrow> []
           | Some thr \<Rightarrow> if p \<le> thr then [Alert s p thr] else []))"
proof (induction prices)
  case Nil
  show ?case by simp
next
  case (Cons kv prices)
  obtain k price where kv: "kv = (k, price)" by (cases kv)
  from Cons.prems kv have fresh: "k \<notin> fst ` set prices" and dist: "distinct (map fst prices)"
    by auto
  show ?case
  proof (cases "k = s")
    case True
    with fresh have "filter (\<lambda>m. alert_sym m = s) (check_loop thrs prices []) = []"
      by (simp add: check_loop_absent_key)
    then show ?thesis
      unfolding kv using True check_loop_append [of thrs prices "[Alert k p t]" for p t]
      by (simp split: option.splits)
  next
    case False
    then show ?thesis
      unfolding kv using Cons.IH [OF dist] check_loop_append [of thrs prices "[Alert k p t]" for p t]
      by (simp split: option.splits)
  qed
qed

lemma check_loop_keys:
  "subseq (map alert_sym (check_loop thrs prices [])) (map fst prices)"
proof (induction prices)
  case Nil
  show ?case by simp
next
  case (Cons kv prices)
  obtain k price where kv: "kv = (k, price)" by (cases kv)
  show ?case
    unfolding kv using Cons.IH check_loop_append [of thrs prices "[Alert k p t]" for p t]
    by (auto split: option.splits)
qed

lemma dict_set_keys:
  "map fst (dict_set d k v) = (if k \<in> fst ` set d then map fst d else map fst d @ [k])"
  by (simp add: dict_set_def update_keys)

lemma fetch_loop_keys:
  "\<exists>zs. map fst (fetch_loop data vs pairs out) = map fst out @ zs \<and> subseq zs (map fst pairs)"
proof (induction pairs arbitrary: out)
  case Nil
  show ?case by simp
next
  case (Cons kv pairs)
  obtain s idx where kv: "kv = (s, idx)" by (cases kv)
  define price where "price = (case map_of data idx of None \<Rightarrow> None
     | Some quotes \<Rightarrow> (case map_of quotes vs of None \<Rightarrow> None | Some v \<Rightarrow> v))"
  obtain zs where zs: "map fst (fetch_loop data vs pairs (dict_set out s price)) = map fst (dict_set out s price) @ zs"
    and sub: "subseq zs (map fst pairs)"
    using Cons.IH by blast
  show ?case
  proof (cases "s \<in> fst ` set out")
    case True
    with zs have "map fst (fetch_loop data vs (kv # pairs) out) = map fst out @ zs"
      by (simp add: kv price_def dict_set_keys)
    moreover from sub have "subseq zs (map fst (kv # pairs))"
      by (simp add: kv list_emb_Cons)
    ultimately show ?thesis by blast
  next
    case False
    with zs have "map fst (fetch_loop data vs (kv # pairs) out) = map fst out @ (s # zs)"
      by (simp add: kv price_def dict_set_keys)
    moreover from sub have "subseq (s # zs) (map fst (kv # pairs))"
      by (simp add: kv)
    ultimately show ?thesis by blast
  qed
qed

lemma all_absent_loop_keys:
  "\<exists>zs. map fst (foldl (\<lambda>d s. dict_set d s v) out syms) = map fst out @ zs \<and> subseq zs syms"
proof (induction syms arbitrary: out)
  case Nil
  show ?case by simp
next
  case (Cons s syms)
  obtain zs where zs: "map fst (foldl (\<lambda>d s. dict_set d s v) (dict_set out s v) syms) = map fst (dict_set out s v) @ zs"
    and sub: "subseq zs syms"
    using Cons.IH by blast
  show ?case
  proof (cases "s \<in> fst ` set out")
    case True
    with zs have "map fst (foldl (\<lambda>d s. dict_set d s v) out (s # syms)) = map fst out @ zs"
      by (simp add: dict_set_keys)
    moreover from sub have "subseq zs (s # syms)"
      by (simp add: list_emb_Cons)
    ultimately show ?thesis by blast
  next
    case False
    with zs have "map fst (foldl (\<lambda>d s. dict_set d s v) out (s # syms)) = map fst out @ (s # zs)"
      by (simp add: dict_set_keys)
    moreover from sub have "subseq (s # zs) (s # syms)"
      by simp
    ultimately show ?thesis by blast
  qed
qed

lemma fetch_or_absent_keys:
  "subseq (map fst (snd (fetch_or_absent tr resp))) (symbols tr)"
proof (cases resp)
  case (Inl e)
  obtain zs where "map fst (all_absent (symbols tr) :: 'a prices) = zs" and "subseq zs (symbols tr)"
    using all_absent_loop_keys [of None "[]" "symbols tr"] by (auto simp: all_absent_def)
  with Inl show ?thesis
    by (simp add: fetch_or_absent_def fetch_prices_def)
next
  case (Inr data)
  obtain zs where zs: "map fst (fetch_loop data (vs_currency tr) (zip (symbols tr) (ids tr)) []) = zs"
    and sub: "subseq zs (map fst (zip (symbols tr) (ids tr)))"
    using fetch_loop_keys [of data "vs_currency tr" "zip (symbols tr) (ids tr)" "[]"] by auto
  have "subseq (take n xs) (take n xs @ drop n xs)" for n and xs :: "string list"
    by (rule subseq_rev_drop_many) simp
  then have "subseq (map fst (zip (symbols tr) (ids tr))) (symbols tr)"
    by (simp add: map_fst_zip_take)
  with sub have "subseq zs (symbols tr)"
    using subseq_order.trans by blast
  with Inr zs show ?thesis
    by (simp add: fetch_or_absent_def fetch_prices_def)
qed


lemma check_loop_map_filter:
  "check_loop thrs prices [] = List.map_filter (alert_for thrs) prices"
proof (induction prices)
  case Nil
  show ?case by simp
next
  case (Cons kv prices)
  obtain k price where kv: "kv = (k, price)" by (cases kv)
  show ?case
    unfolding kv using Cons.IH check_loop_append [of thrs prices "[Alert k p t]" for p t]
    by (simp add: alert_for_def split: option.splits)
qed

lemma dict_set_distinct: "distinct (map fst d) \<Longrightarrow> distinct (map fst (dict_set d k v))"
  by (simp add: dict_set_def distinct_update)

lemma fetch_loop_distinct:
  "distinct (map fst out) \<Longrightarrow> distinct (map fst (fetch_loop data vs pairs out))"
  by (induction data vs pairs out rule: fetch_loop.induct) (simp_all add: dict_set_distinct)

lemma all_absent_loop_distinct:
  "distinct (map fst out) \<Longrightarrow> distinct (map fst (foldl (\<lambda>d s. dict_set d s v) out syms))"
  by (induction syms arbitrary: out) (simp_all add: dict_set_distinct)

lemma fetch_or_absent_distinct: "distinct (map fst (snd (fetch_or_absent tr resp)))"
  by (cases resp)
    (simp_all add: fetch_or_absent_def fetch_prices_def all_absent_def
      fetch_loop_distinct all_absent_loop_distinct)

text \<open>
  C4. In a price dictionary, a symbol that has a price and a configured threshold gets
  exactly one alert when the price is at most the threshold and none otherwise; a price
  equal to the threshold gives the alert; a symbol whose price is absent (\<^verbatim>\<open>None\<close>, or
  no entry at all) gets no alert. Prices are compared with \<open>\<le>\<close> of a preorder: the
  boundary case needs \<open>thr \<le> thr\<close>, which a float that is a number satisfies. A
  dictionary has one entry per key; the observation of every tick is one
  (\<open>fetch_or_absent_distinct\<close>).
\<close>

theorem check_alert_iff_le:
  fixes am :: "('p::preorder) alert_manager"
  assumes "distinct (map fst prices)"
  shows "(get_price prices s = Some p \<and> map_of (thresholds am) s = Some thr \<longrightarrow>
            filter (\<lambda>m. alert_sym m = s) (check am prices) =
              (if p \<le> thr then [Alert s p thr] else [])) \<and>
         (get_price prices s = Some thr \<and> map_of (thresholds am) s = Some thr \<longrightarrow>
            filter (\<lambda>m. alert_sym m = s) (check am prices) = [Alert s thr thr]) \<and>
         (get_price prices s = None \<longrightarrow>
            filter (\<lambda>m. alert_sym m = s) (check am prices) = [])"
  using check_loop_for_symbol [OF assms, of s "thresholds am"]
  by (auto simp: check_def get_price_def split: option.splits)

text \<open>The scenario of the specification: BTC at 59000 under a threshold of 60000.\<close>

theorem check_alert_iff_le_witness:
  "distinct (map fst [(''BTC'', Some 59000), (''ETH'', Some (3000::real))]) \<and>
   get_price [(''BTC'', Some 59000), (''ETH'', Some (3000::real))] ''BTC'' = Some 59000 \<and>
   map_of (thresholds (AlertManager (Some [(''BTC'', 60000::real)]) None None)) ''BTC''
     = Some 60000 \<and>
   filter (\<lambda>m. alert_sym m = ''BTC'')
     (check (AlertManager (Some [(''BTC'', 60000)]) None None)
        [(''BTC'', Some 59000), (''ETH'', Some (3000::real))]) = [Alert ''BTC'' 59000 60000]"
proof -
  have d: "distinct (map fst [(''BTC'', Some 59000), (''ETH'', Some (3000::real))])"
    by simp
  have g: "get_price [(''BTC'', Some 59000), (''ETH'', Some (3000::real))] ''BTC'' = Some 59000"
    by (simp add: get_price_def)
  have t: "map_of (thresholds (AlertManager (Some [(''BTC'', 60000::real)]) None None)) ''BTC''
             = Some 60000"
    by (simp add: AlertManager_def dict_set_def upper_def upper_char_def)
  from check_alert_iff_le [OF d, of "''BTC''" 59000
      "AlertManager (Some [(''BTC'', 60000)]) None None" 60000] g t
  show ?thesis by simp
qed

text \<open>
  C9. The alert evaluator is a function of the thresholds and the price dictionary alone:
  \<^const>\<open>check\<close> reads both and writes neither (the source assigns only to its local
  \<^verbatim>\<open>messages\<close>), so it has no state to return, and its result is the entry-by-entry
  image of the prices under \<^const>\<open>alert_for\<close>, each alert depending on its own entry
  only. The alerts come in the order of the dictionary's keys, and for the observation of
  a tick (fetched or substituted) that is the tracking order: the alerted symbols are a
  subsequence of the tracker's symbol list.
\<close>

theorem check_pure_ordered:
  "check am prices = List.map_filter (alert_for (thresholds am)) prices \<and>
   subseq (map alert_sym (check am prices)) (map fst prices) \<and>
   subseq (map alert_sym (check am (snd (fetch_or_absent tr resp)))) (symbols tr)"
proof -
  have keys: "subseq (map alert_sym (check am ps)) (map fst ps)" for ps
    by (simp add: check_def check_loop_keys)
  have "subseq (map alert_sym (check am (snd (fetch_or_absent tr resp)))) (symbols tr)"
    using keys [of "snd (fetch_or_absent tr resp)"] fetch_or_absent_keys [of tr resp]
      subseq_order.trans by blast
  then show ?thesis
    using keys [of prices] by (simp add: check_def check_loop_map_filter)
qed




section \<open>The observation store\<close>

text \<open>
  C5. The row that \<^verbatim>\<open>log\<close> builds for an observation has one column for the timestamp
  and one for each tracked symbol, in tracking order, whatever the prices are: a symbol
  with a price gives a number, a symbol whose price is absent (or that the observation
  does not mention) gives an empty field, never a missing column. When logging is enabled
  and the file opens, exactly that row is appended.
\<close>

theorem log_row_columns:
  "length (log_row tr prices ts) = 1 + length (symbols tr) \<and>
   log_row tr prices ts ! 0 = CText ts \<and>
   (\<forall>i < length (symbols tr).
      log_row tr prices ts ! Suc i =
        (case get_price prices (symbols tr ! i) of None \<Rightarrow> CEmpty | Some p \<Rightarrow> CNum p)) \<and>
   (csv_path tr = Some path \<and> path \<noteq> [] \<longrightarrow>
      log_csv tr prices ts None fs =
        (fs(path \<mapsto> (case fs path of None \<Rightarrow> [] | Some rows \<Rightarrow> rows) @ [log_row tr prices ts]),
         [AppendRow path (log_row tr prices ts)], None))"
  by (simp add: log_row_def log_csv_def cell_of_def Let_def)

theorem log_row_columns_witness:
  "length (log_row scenario_tracker [(''BTC'', None), (''ETH'', Some (3000::real))] ''t1'') = 3 \<and>
   log_row scenario_tracker [(''BTC'', None), (''ETH'', Some (3000::real))] ''t1''
     = [CText ''t1'', CEmpty, CNum 3000] \<and>
   fst (log_csv scenario_tracker [(''BTC'', None), (''ETH'', Some 3000)] ''t1'' None scenario_files)
       ''prices.csv''
     = Some [[CText ''timestamp'', CText ''BTC_usd'', CText ''ETH_usd''],
             [CText ''t1'', CEmpty, CNum 3000]]"
  using log_row_columns [of scenario_tracker "[(''BTC'', None), (''ETH'', Some (3000::real))]"
      "''t1''" "''prices.csv''" scenario_files]
  by (simp add: scenario_tracker_def scenario_files_def log_row_def get_price_def cell_of_def
      header_def log_csv_def)

section \<open>The notifier\<close>

lemma send_loop_posts:
  "filter is_post (send_loop token chat post i messages) =
     map (HttpPost (telegram_url token) chat) messages"
  by (induction messages arbitrary: i) (simp_all add: Let_def split: option.splits)

lemma send_loop_failures:
  "filter (\<lambda>ev. \<not> is_post ev) (send_loop token chat post i messages) =
     map PrintTelegramFailed (List.map_filter post [i..<i + length messages])"
proof (induction messages arbitrary: i)
  case Nil
  show ?case by simp
next
  case (Cons m messages)
  have "[i..<i + length (m # messages)] = i # [Suc i..<Suc i + length messages]"
    using upt_conv_Cons [of i "i + Suc (length messages)"] by simp
  then show ?case
    using Cons.IH [of "Suc i"] by (simp add: Let_def split: option.splits)
qed

text \<open>
  C8. Without credentials (token or chat id absent or empty) \<^verbatim>\<open>send_telegram\<close> does
  nothing: no post, no output. With credentials it posts every message of the batch once,
  in order, whatever the outcomes of the posts are; the only other events are the failure
  reports, one for each post that raised, so a failed delivery stops nothing.
\<close>

theorem send_telegram_each:
  "(\<not> (truthy (telegram_token am) \<and> truthy (telegram_chat_id am)) \<longrightarrow>
      send_telegram am messages post = []) \<and>
   (telegram_token am = Some token \<and> token \<noteq> [] \<and>
    telegram_chat_id am = Some chat \<and> chat \<noteq> [] \<longrightarrow>
      filter is_post (send_telegram am messages post) =
        map (HttpPost (telegram_url token) chat) messages \<and>
      filter (\<lambda>ev. \<not> is_post ev) (send_telegram am messages post) =
        map PrintTelegramFailed (List.map_filter post [0..<length messages]))"
  using send_loop_failures [of token chat post 0 messages]
  by (simp add: send_telegram_def send_loop_posts)

theorem send_telegram_each_witness:
  "send_telegram (AlertManager None None (Some ''42''))
      [Alert ''BTC'' 1 2, Alert ''ETH'' (3::real) 4] (\<lambda>i. Some RequestException) = [] \<and>
   filter is_post
     (send_telegram (AlertManager None (Some ''tok'') (Some ''42''))
        [Alert ''BTC'' 1 2, Alert ''ETH'' (3::real) 4]
        (\<lambda>i. if i = 0 then Some RequestException else None)) =
     [HttpPost (telegram_url ''tok'') ''42'' (Alert ''BTC'' 1 2),
      HttpPost (telegram_url ''tok'') ''42'' (Alert ''ETH'' 3 4)] \<and>
   send_telegram (AlertManager None (Some ''tok'') (Some ''42''))
      [Alert ''BTC'' 1 2, Alert ''ETH'' (3::real) 4]
      (\<lambda>i. if i = 0 then Some RequestException else None) =
     [HttpPost ''https://api.telegram.org/bottok/sendMessage'' ''42'' (Alert ''BTC'' 1 2),
      PrintTelegramFailed RequestException,
      HttpPost ''https://api.telegram.org/bottok/sendMessage'' ''42'' (Alert ''ETH'' 3 4)]"
proof -
  have silent: "send_telegram (AlertManager None None (Some ''42''))
      [Alert ''BTC'' 1 2, Alert ''ETH'' (3::real) 4] (\<lambda>i. Some RequestException) = []"
    using send_telegram_each [of "AlertManager None None (Some ''42'')"
        "[Alert ''BTC'' 1 2, Alert ''ETH'' (3::real) 4]" "\<lambda>i. Some RequestException"]
    by (simp add: AlertManager_def)
  have posts: "filter is_post
     (send_telegram (AlertManager None (Some ''tok'') (Some ''42''))
        [Alert ''BTC'' 1 2, Alert ''ETH'' (3::real) 4]
        (\<lambda>i. if i = 0 then Some RequestException else None)) =
     [HttpPost (telegram_url ''tok'') ''42'' (Alert ''BTC'' 1 2),
      HttpPost (telegram_url ''tok'') ''42'' (Alert ''ETH'' 3 4)]"
    using send_telegram_each [of "AlertManager None (Some ''tok'') (Some ''42'')"
        "[Alert ''BTC'' 1 2, Alert ''ETH'' (3::real) 4]"
        "\<lambda>i. if i = 0 then Some RequestException else None" "''tok''" "''42''"]
    by (simp add: AlertManager_def)
  have events: "send_telegram (AlertManager None (Some ''tok'') (Some ''42''))
      [Alert ''BTC'' 1 2, Alert ''ETH'' (3::real) 4]
      (\<lambda>i. if i = 0 then Some RequestException else None) =
     [HttpPost ''https://api.telegram.org/bottok/sendMessage'' ''42'' (Alert ''BTC'' 1 2),
      PrintTelegramFailed RequestException,
      HttpPost ''https://api.telegram.org/bottok/sendMessage'' ''42'' (Alert ''ETH'' 3 4)]"
    by (simp add: AlertManager_def send_telegram_def telegram_url_def)
  from silent posts events show ?thesis
    by blast
qed

section \<open>Fetching with no symbols\<close>

lemma CryptoTracker_fields:
  "fst (CryptoTracker syms vs path io fs) =
     \<lparr>symbols = map upper syms, ids = map to_id (map upper syms),
      vs_currency = vs, csv_path = path\<rparr>"
  by (simp add: CryptoTracker_def Let_def split: prod.splits)

text \<open>
  C3 as stated fails: \<^verbatim>\<open>fetch_prices\<close> has no test for an empty symbol list. A tracker
  built with no symbols still issues its request (with an empty \<^verbatim>\<open>ids\<close> parameter); when
  the request fails the call raises, and when it succeeds the request has been issued all
  the same.
\<close>

theorem fetch_empty_counterexample:
  "fetch_prices (fst (CryptoTracker [] ''usd'' None None (Map.empty :: real files)))
      (Inl RequestException :: exc + real json)
     = ([HttpGet ''https://api.coingecko.com/api/v3/simple/price'' [] ''usd''], Inl RequestException) \<and>
   fetch_prices (fst (CryptoTracker [] ''usd'' None None (Map.empty :: real files)))
      (Inr [] :: exc + real json)
     \<noteq> ([], Inr [])"
  by (simp add: CryptoTracker_fields fetch_prices_def COINGECKO_SIMPLE_PRICE_def)

text \<open>
  C3, amended. For every quote currency, a tracker built with an empty symbol list issues
  exactly one request, with an empty \<^verbatim>\<open>ids\<close> parameter; the fetch returns the empty mapping
  when the request succeeds and raises the request's error when it fails.
\<close>

theorem fetch_empty_one_request:
  "symbols (fst (CryptoTracker [] vs path io fs)) = [] \<and>
   fetch_prices (fst (CryptoTracker [] vs path io fs)) resp =
     ([HttpGet COINGECKO_SIMPLE_PRICE [] vs],
      case resp of Inl e \<Rightarrow> Inl e | Inr data \<Rightarrow> Inr [])"
  by (cases resp) (simp_all add: CryptoTracker_fields fetch_prices_def)

section \<open>Header stability\<close>


lemma log_all_existing:
  "csv_path tr = Some path \<Longrightarrow> path \<noteq> [] \<Longrightarrow> fs path = Some rows \<Longrightarrow>
   log_all tr obs fs path =
     Some (rows @ map (\<lambda>(prices, ts, r). log_row tr prices ts)
                    (filter (\<lambda>(prices, ts, r). r = None) obs))"
proof (induction obs arbitrary: fs rows)
  case Nil
  then show ?case by simp
next
  case (Cons ob obs)
  obtain prices ts io where ob: "ob = (prices, ts, io)" by (cases ob)
  show ?case
  proof (cases io)
    case None
    have "fst (log_csv tr prices ts io fs) path = Some (rows @ [log_row tr prices ts])"
      using Cons.prems None by (simp add: log_csv_def Let_def)
    with Cons.IH [of "fst (log_csv tr prices ts io fs)" "rows @ [log_row tr prices ts]"]
      Cons.prems
    show ?thesis
      using None by (simp add: ob)
  next
    case (Some e)
    have "fst (log_csv tr prices ts io fs) path = Some rows"
      using Cons.prems Some by (simp add: log_csv_def Let_def)
    with Cons.IH [of "fst (log_csv tr prices ts io fs)" rows] Cons.prems
    show ?thesis
      using Some by (simp add: ob)
  qed
qed

text \<open>
  C6. When a file already exists at the log path, building the tracker again leaves the
  file system as it is and raises nothing (the header is not written a second time,
  whatever the symbols), and any sequence of \<^verbatim>\<open>log\<close> calls leaves the existing rows, header
  first, in place: the file is the old rows followed by one data row for each call whose
  append succeeded.
\<close>

theorem header_stable:
  assumes "fs path = Some rows" and "path \<noteq> []"
  shows "snd (CryptoTracker syms vs (Some path) io fs) = (fs, None) \<and>
         log_all (fst (CryptoTracker syms vs (Some path) io fs)) obs fs path =
           Some (rows @ map (\<lambda>(prices, ts, r). log_row (fst (CryptoTracker syms vs (Some path) io fs)) prices ts)
                          (filter (\<lambda>(prices, ts, r). r = None) obs))"
proof -
  have init: "snd (CryptoTracker syms vs (Some path) io fs) = (fs, None)"
    using assms by (simp add: CryptoTracker_def ensure_csv_def)
  have "csv_path (fst (CryptoTracker syms vs (Some path) io fs)) = Some path"
    by (simp add: CryptoTracker_fields)
  with log_all_existing [of "fst (CryptoTracker syms vs (Some path) io fs)" path fs rows obs]
    assms init
  show ?thesis
    by simp
qed


theorem header_stable_witness:
  "scenario_files ''prices.csv'' = Some [header scenario_tracker] \<and>
   snd (CryptoTracker [''btc'', ''eth''] ''usd'' (Some ''prices.csv'') None scenario_files)
     = (scenario_files, None) \<and>
   log_all (fst (CryptoTracker [''BTC'', ''ETH''] ''usd'' (Some ''prices.csv'') None scenario_files))
       [([(''BTC'', Some 59000), (''ETH'', None)], ''t1'', None),
        ([(''BTC'', Some 1), (''ETH'', Some 2)], ''t2'', Some OSError),
        ([(''BTC'', None), (''ETH'', Some 3000)], ''t3'', None)]
       scenario_files ''prices.csv''
     = Some [[CText ''timestamp'', CText ''BTC_usd'', CText ''ETH_usd''],
             [CText ''t1'', CNum 59000, CEmpty],
             [CText ''t3'', CEmpty, CNum 3000]]"
proof -
  have existing: "scenario_files ''prices.csv'' = Some [header scenario_tracker]"
    by (simp add: scenario_files_def)
  have path: "''prices.csv'' \<noteq> []"
    by simp
  have first: "snd (CryptoTracker [''btc'', ''eth''] ''usd'' (Some ''prices.csv'') None scenario_files)
     = (scenario_files, None)"
    using existing path
      header_stable [of scenario_files "''prices.csv''" "[header scenario_tracker]"
        "[''btc'', ''eth'']" "''usd''" None "[]"]
    by simp
  have second:
    "log_all (fst (CryptoTracker [''BTC'', ''ETH''] ''usd'' (Some ''prices.csv'') None scenario_files))
       [([(''BTC'', Some 59000), (''ETH'', None)], ''t1'', None),
        ([(''BTC'', Some 1), (''ETH'', Some 2)], ''t2'', Some OSError),
        ([(''BTC'', None), (''ETH'', Some 3000)], ''t3'', None)]
       scenario_files ''prices.csv''
     = Some [[CText ''timestamp'', CText ''BTC_usd'', CText ''ETH_usd''],
             [CText ''t1'', CNum 59000, CEmpty],
             [CText ''t3'', CEmpty, CNum 3000]]"
    using existing path
      header_stable [of scenario_files "''prices.csv''" "[header scenario_tracker]"
        "[''BTC'', ''ETH'']" "''usd''" None
        "[([(''BTC'', Some 59000), (''ETH'', None)], ''t1'', None),
          ([(''BTC'', Some 1), (''ETH'', Some 2)], ''t2'', Some OSError),
          ([(''BTC'', None), (''ETH'', Some 3000)], ''t3'', None)]"]
    by (simp add: CryptoTracker_fields log_row_def get_price_def cell_of_def header_def
        scenario_tracker_def upper_def upper_char_def)
  from existing first second show ?thesis
    by simp
qed

section \<open>The substituted observation\<close>








section \<open>One tick\<close>













section \<open>The loop\<close>





section \<open>Errors during a tick\<close>







end
